theory Spec2Isabelle
  imports Main "HOL-Library.Word"
begin

unbundle bit_operations_syntax

section \<open>The character device driver \<open>dummycdd.c\<close>\<close>

text \<open>
  The driver is a Linux kernel module. Its integers are modelled at the widths of an LP64
  kernel build: \<open>int\<close> and \<open>dev_t\<close> have 32 bits, \<open>size_t\<close>, \<open>ssize_t\<close>, \<open>long\<close>,
  \<open>long long\<close> and pointers have 64 bits. Arithmetic wraps around, as it does in a kernel
  build; a signed reading of a word is \<open>sint\<close>, an unsigned one \<open>unat\<close>.
\<close>

type_synonym byte = "8 word"
type_synonym cint = "32 word"
type_synonym dev_t = "32 word"
type_synonym size_t = "64 word"
type_synonym ssize_t = "64 word"
type_synonym llong = "64 word"
type_synonym ptr = "64 word"

subsection \<open>Constants of the source file\<close>

definition DEVICE_NAME :: string where
  "DEVICE_NAME = ''dummycdd''"

definition CLASS_NAME :: string where
  "CLASS_NAME = ''dummycdd''"

text \<open>\<open>sizeof(message)\<close> for \<open>static char message[256]\<close>, of type \<open>size_t\<close>.\<close>

definition sizeof_message :: size_t where
  "sizeof_message = 256"

subsection \<open>What the kernel sees\<close>

text \<open>
  The three kinds of resource the module takes from the kernel: a character-device number
  registered under a name, a device class, and a device node of a class with a device
  number.
\<close>

datatype resource =
    Chrdev cint string
  | Class ptr
  | Device ptr dev_t

datatype level = KERN_INFO | KERN_ALERT

text \<open>
  A call of \<open>printk\<close>. \<open>Printk\<close> carries the text of a line whose arguments are the device
  name and numbers. \<open>Printk_message\<close> is the call \<open>printk(KERN_INFO "%s", message)\<close> and
  carries the 256 bytes of the array \<open>message\<close> at the moment of the call: this is what the
  driver hands to the logger. (\<open>printk\<close> prints it as a C string, that is up to the first
  zero byte it finds; the driver does not add one.)
\<close>

datatype event =
    Printk level string
  | Printk_message level "byte list"

subsection \<open>State\<close>

text \<open>
  The file-scope variables of the module, followed by the part of the kernel the module
  acts on: the resources now allocated (\<open>live\<close>, most recent first), the releases performed
  so far in the order they happened (\<open>released\<close>), and the kernel log (\<open>klog\<close>).
  The module parameter \<open>id\<close> is the field \<open>id_param\<close>, since \<open>id\<close> is the identity
  function of HOL.
\<close>

record state =
  majorNumber :: cint
  message     :: "byte list"
  numberOpens :: cint
  dummyClass  :: ptr
  dummyDevice :: ptr
  device_name :: string
  id_param    :: cint
  live        :: "resource list"
  released    :: "resource list"
  klog        :: "event list"

text \<open>The state of a freshly loaded module with the default parameter \<open>id = 1\<close>.\<close>

definition init_state :: state where
  "init_state =
     \<lparr> majorNumber = 0, message = replicate 256 0, numberOpens = 0, dummyClass = 0,
       dummyDevice = 0, device_name = [], id_param = 1, live = [], released = [], klog = [] \<rparr>"

subsection \<open>Kernel and library services used by the driver\<close>

text \<open>
  These functions are not part of the driver. Each is modelled by its documented contract,
  as far as the driver depends on it. What a service answers (a major number, a pointer, an
  error code) is decided by the kernel and is a parameter of the model.
\<close>

definition printk :: "level \<Rightarrow> string \<Rightarrow> state \<Rightarrow> state" where
  "printk l s st = st\<lparr>klog := klog st @ [Printk l s]\<rparr>"

definition printk_message :: "level \<Rightarrow> state \<Rightarrow> state" where
  "printk_message l st = st\<lparr>klog := klog st @ [Printk_message l (message st)]\<rparr>"

text \<open>
  What \<open>printk\<close> prints for the conversion \<open>%s\<close> when it is given a \<open>char\<close> array: the
  bytes before the first zero byte. When the array holds no zero byte, \<open>printk\<close> reads on
  past its end; what lies there is not described here, and the result is \<open>None\<close>.
\<close>

definition c_string :: "byte list \<Rightarrow> byte list option" where
  "c_string m = (if 0 \<in> set m then Some (takeWhile (\<lambda>b. b \<noteq> 0) m) else None)"

text \<open>The bytes that a call of \<open>printk\<close> puts into the kernel log.\<close>

fun printed :: "event \<Rightarrow> byte list option" where
  "printed (Printk l s) = Some (map of_char s)"
| "printed (Printk_message l m) = c_string m"

definition newline :: string where
  "newline = [CHR 0x0A]"

text \<open>Decimal rendering, as \<open>%d\<close> and \<open>%zu\<close> do it.\<close>

definition digit_char :: "nat \<Rightarrow> char" where
  "digit_char d = ''0123456789'' ! d"

function dec_nat :: "nat \<Rightarrow> string" where
  "dec_nat n = (if n < 10 then [digit_char n] else dec_nat (n div 10) @ [digit_char (n mod 10)])"
  by pat_completeness auto
termination
  by (relation "measure (\<lambda>n. n)") auto

declare dec_nat.simps [simp del]

definition fmt_d :: "cint \<Rightarrow> string" where
  "fmt_d x = (if sint x < 0 then CHR ''-'' # dec_nat (nat (- sint x)) else dec_nat (nat (sint x)))"

definition fmt_zu :: "size_t \<Rightarrow> string" where
  "fmt_zu x = dec_nat (unat x)"

text \<open>\<open>MAX_ERRNO\<close>, \<open>IS_ERR\<close>, \<open>PTR_ERR\<close> and \<open>MKDEV\<close> of the kernel headers.\<close>

definition MAX_ERRNO :: "64 word" where
  "MAX_ERRNO = 4095"

definition IS_ERR :: "ptr \<Rightarrow> bool" where
  "IS_ERR p = (- MAX_ERRNO \<le> p)"

definition PTR_ERR :: "ptr \<Rightarrow> 64 word" where
  "PTR_ERR p = p"

definition MINORBITS :: nat where
  "MINORBITS = 20"

definition MKDEV :: "cint \<Rightarrow> cint \<Rightarrow> dev_t" where
  "MKDEV ma mi = (push_bit MINORBITS ma) OR mi"

text \<open>Taking a resource, and giving one back. A release is always recorded.\<close>

definition acquire :: "resource \<Rightarrow> state \<Rightarrow> state" where
  "acquire r st = st\<lparr>live := r # live st\<rparr>"

definition release :: "resource \<Rightarrow> state \<Rightarrow> state" where
  "release r st = st\<lparr>live := remove1 r (live st), released := released st @ [r]\<rparr>"

text \<open>
  \<open>register_chrdev(0, name, &fops)\<close> answers a negative error code, or the major number it
  has allocated. The answer is the parameter \<open>ans\<close>.
\<close>

definition register_chrdev :: "string \<Rightarrow> cint \<Rightarrow> state \<Rightarrow> cint \<times> state" where
  "register_chrdev name ans st =
     (if sint ans < 0 then (ans, st) else (ans, acquire (Chrdev ans name) st))"

definition unregister_chrdev :: "cint \<Rightarrow> string \<Rightarrow> state \<Rightarrow> state" where
  "unregister_chrdev major name st = release (Chrdev major name) st"

text \<open>\<open>class_create\<close> answers an error pointer, or the pointer to the new class.\<close>

definition class_create :: "string \<Rightarrow> ptr \<Rightarrow> state \<Rightarrow> ptr \<times> state" where
  "class_create name ans st =
     (if IS_ERR ans then (ans, st) else (ans, acquire (Class ans) st))"

definition class_unregister :: "ptr \<Rightarrow> state \<Rightarrow> state" where
  "class_unregister cls st = release (Class cls) st"

text \<open>
  \<open>class_destroy\<close> does nothing for a null or error pointer, and otherwise calls
  \<open>class_unregister\<close>.
\<close>

definition class_destroy :: "ptr \<Rightarrow> state \<Rightarrow> state" where
  "class_destroy cls st = (if cls = 0 \<or> IS_ERR cls then st else class_unregister cls st)"

text \<open>\<open>device_create\<close> answers an error pointer, or the pointer to the new device.\<close>

definition device_create :: "ptr \<Rightarrow> dev_t \<Rightarrow> string \<Rightarrow> ptr \<Rightarrow> state \<Rightarrow> ptr \<times> state" where
  "device_create cls devt name ans st =
     (if IS_ERR ans then (ans, st) else (ans, acquire (Device cls devt) st))"

definition device_destroy :: "ptr \<Rightarrow> dev_t \<Rightarrow> state \<Rightarrow> state" where
  "device_destroy cls devt st = release (Device cls devt) st"

text \<open>
  \<open>copy_from_user(to, buffer + off, n)\<close>. The caller's readable memory from the pointer
  \<open>buffer\<close> on is the byte list \<open>buffer\<close>; any address outside it faults. The first \<open>n\<close>
  bytes of \<open>to\<close> are overwritten: with the bytes read up to the first fault, then with zero
  bytes. The bytes of \<open>to\<close> from offset \<open>n\<close> on are not touched. The answer is the number of
  bytes that could not be copied, so \<open>0\<close> means success.
\<close>

definition copy_from_user :: "byte list \<Rightarrow> byte list \<Rightarrow> int \<Rightarrow> nat \<Rightarrow> byte list \<times> nat" where
  "copy_from_user to buffer off n =
     (let got = (if off < 0 then [] else take n (drop (nat off) buffer));
          left = n - length got
      in (got @ replicate left 0 @ drop n to, left))"

text \<open>The answers of the kernel to the three requests of \<open>dummycdd_init\<close>.\<close>

record kernel_answers =
  register_chrdev_ans :: cint
  class_create_ans    :: ptr
  device_create_ans   :: ptr

subsection \<open>The driver\<close>

text \<open>\<open>sprintf(device_name, DEVICE_NAME"%d", id)\<close>\<close>

definition sprintf_device_name :: "cint \<Rightarrow> string" where
  "sprintf_device_name i = DEVICE_NAME @ fmt_d i"

definition dummycdd_init :: "kernel_answers \<Rightarrow> state \<Rightarrow> cint \<times> state" where
  "dummycdd_init k st0 =
     (let st1 = st0\<lparr>device_name := sprintf_device_name (id_param st0)\<rparr>;
          st2 = printk KERN_INFO
                  (device_name st1 @ '': Initializing the '' @ device_name st1 @ '' LKM'' @ newline) st1;
          (r, st3) = register_chrdev (device_name st2) (register_chrdev_ans k) st2;
          st4 = st3\<lparr>majorNumber := r\<rparr>
      in if sint (majorNumber st4) < 0 then
           (let st5 = printk KERN_ALERT
                        (device_name st4 @ '' failed to register a major number'' @ newline) st4
            in (majorNumber st5, st5))
         else
           (let st5 = printk KERN_INFO
                        (device_name st4 @ '': registered correctly with major number ''
                           @ fmt_d (majorNumber st4) @ newline) st4;
                (c, st6) = class_create CLASS_NAME (class_create_ans k) st5;
                st7 = st6\<lparr>dummyClass := c\<rparr>
            in if IS_ERR (dummyClass st7) then
                 (let st8 = unregister_chrdev (majorNumber st7) (device_name st7) st7;
                      st9 = printk KERN_ALERT
                              (device_name st8 @ '': Failed to register device class'' @ newline) st8
                  in (ucast (PTR_ERR (dummyClass st9)), st9))
               else
                 (let st8 = printk KERN_INFO
                              (device_name st7 @ '': device class registered correctly'' @ newline) st7;
                      (d, st9) = device_create (dummyClass st8) (MKDEV (majorNumber st8) 0)
                                   (device_name st8) (device_create_ans k) st8;
                      st10 = st9\<lparr>dummyDevice := d\<rparr>
                  in if IS_ERR (dummyDevice st10) then
                       (let st11 = class_destroy (dummyClass st10) st10;
                            st12 = unregister_chrdev (majorNumber st11) (device_name st11) st11;
                            st13 = printk KERN_ALERT
                                     (device_name st12 @ '': Failed to create the device'' @ newline) st12
                        in (ucast (PTR_ERR (dummyDevice st13)), st13))
                     else
                       (let st11 = printk KERN_INFO
                                     (device_name st10 @ '': device class created correctly'' @ newline) st10
                        in (0, st11)))))"

definition dummycdd_exit :: "state \<Rightarrow> state" where
  "dummycdd_exit st0 =
     (let st1 = device_destroy (dummyClass st0) (MKDEV (majorNumber st0) 0) st0;
          st2 = class_unregister (dummyClass st1) st1;
          st3 = class_destroy (dummyClass st2) st2;
          st4 = unregister_chrdev (majorNumber st3) (device_name st3) st3
      in printk KERN_INFO (device_name st4 @ '': Goodbye from the LKM!'' @ newline) st4)"

definition dev_open :: "state \<Rightarrow> cint \<times> state" where
  "dev_open st0 =
     (let st1 = st0\<lparr>numberOpens := numberOpens st0 + 1\<rparr>;
          st2 = printk KERN_INFO
                  (device_name st1 @ '': Device has been opened '' @ fmt_d (numberOpens st1)
                     @ '' time(s)'' @ newline) st1
      in (0, st2))"

definition dev_release :: "state \<Rightarrow> cint \<times> state" where
  "dev_release st0 =
     (let st1 = printk KERN_INFO (device_name st0 @ '': Device successfully closed'' @ newline) st0
      in (0, st1))"

text \<open>
  One pass through the body of the loop of \<open>dev_write\<close>, at loop variable \<open>i\<close>. The answer of
  \<open>copy_from_user\<close> is dropped, as in the source. \<open>buffer + i\<close> adds the \<open>long long\<close> value
  of \<open>i\<close> to the pointer.
\<close>

definition dev_write_body :: "byte list \<Rightarrow> size_t \<Rightarrow> llong \<Rightarrow> state \<Rightarrow> state" where
  "dev_write_body buffer len i st0 =
     (let remainder = len - i;
          st1 = (if remainder > sizeof_message
                 then st0\<lparr>message :=
                        fst (copy_from_user (message st0) buffer (sint i) (unat sizeof_message))\<rparr>
                 else st0\<lparr>message :=
                        fst (copy_from_user (message st0) buffer (sint i) (unat remainder))\<rparr>)
      in printk_message KERN_INFO st1)"

text \<open>
  \<open>for(; i < len; i+=sizeof(message))\<close>. The comparison and the addition are those of
  unsigned 64-bit integers, to which the usual arithmetic conversions take \<open>long long\<close> and
  \<open>size_t\<close>. The result is \<open>None\<close> when the loop does not end.
\<close>

partial_function (option) dev_write_loop ::
  "byte list \<Rightarrow> size_t \<Rightarrow> llong \<Rightarrow> state \<Rightarrow> state option" where
  "dev_write_loop buffer len i st =
     (if i < len then dev_write_loop buffer len (i + sizeof_message) (dev_write_body buffer len i st)
      else Some st)"

declare dev_write_loop.simps [code]

definition dev_write :: "byte list \<Rightarrow> size_t \<Rightarrow> state \<Rightarrow> (ssize_t \<times> state) option" where
  "dev_write buffer len st0 =
     (let st1 = printk KERN_INFO
                  (device_name st0 @ '': Received '' @ fmt_zu len
                     @ '' characters from the user. Message: '') st0
      in case dev_write_loop buffer len 0 st1 of
           None \<Rightarrow> None
         | Some st2 \<Rightarrow> Some (len, st2))"

subsection \<open>Runs and concrete inputs\<close>

text \<open>The states after each of \<open>n\<close> successive calls of \<open>dev_open\<close>, in order.\<close>

primrec open_n :: "nat \<Rightarrow> state \<Rightarrow> state list" where
  "open_n 0 st = []"
| "open_n (Suc n) st = snd (dev_open st) # open_n n (snd (dev_open st))"

text \<open>
  Kernel answers for the four ways \<open>dummycdd_init\<close> can go: all three requests succeed;
  the major number is refused with \<open>-EBUSY\<close>; the class is refused with \<open>-ENOMEM\<close>; the
  device is refused with \<open>-ENOMEM\<close>.
\<close>

definition answers_ok :: kernel_answers where
  "answers_ok =
     \<lparr> register_chrdev_ans = 240, class_create_ans = 0xFFFF888000100000,
       device_create_ans = 0xFFFF888000200000 \<rparr>"

definition answers_number_fails :: kernel_answers where
  "answers_number_fails =
     \<lparr> register_chrdev_ans = - 16, class_create_ans = 0xFFFF888000100000,
       device_create_ans = 0xFFFF888000200000 \<rparr>"

definition answers_class_fails :: kernel_answers where
  "answers_class_fails =
     \<lparr> register_chrdev_ans = 240, class_create_ans = - 12,
       device_create_ans = 0xFFFF888000200000 \<rparr>"

definition answers_device_fails :: kernel_answers where
  "answers_device_fails =
     \<lparr> register_chrdev_ans = 240, class_create_ans = 0xFFFF888000100000,
       device_create_ans = - 12 \<rparr>"

text \<open>
  The state of a freshly loaded module after 255 letters A have been written to it: the
  array holds them, followed by the zero byte it had from the start.
\<close>

definition state_after_A :: state where
  "state_after_A =
     init_state
       \<lparr>message := replicate 255 0x41 @ [0],
        klog := [Printk KERN_INFO '': Received 255 characters from the user. Message: '',
                 Printk_message KERN_INFO (replicate 255 0x41 @ [0])]\<rparr>"

section \<open>Machine arithmetic\<close>

lemma unat_sizeof_message: "unat sizeof_message = 256"
  by (simp add: sizeof_message_def)

lemma sint_size_small:
  fixes len :: "64 word"
  assumes a: "unat len < 2 ^ 63"
  shows "sint len = int (unat len)"
proof -
  have "int (unat len) < int (2 ^ 63)" using a by (simp only: of_nat_less_iff)
  then have "uint len < 2 ^ 63" by simp
  moreover have "- (2 ^ 63) \<le> uint len" by (rule order_trans [of _ 0]) simp_all
  ultimately have "signed_take_bit 63 (uint len) = uint len"
    by (rule signed_take_bit_int_eq_self [rotated])
  then show ?thesis by (simp add: sint_uint)
qed

lemma sint_of_nat_small:
  assumes a: "n < 2 ^ 31"
  shows "sint (of_nat n :: cint) = int n"
proof -
  have "int n < int (2 ^ 31)" using a by (simp only: of_nat_less_iff)
  then have b: "int n < 2 ^ 31" by simp
  have c: "- (2 ^ 31) \<le> int n" by (rule order_trans [of _ 0]) simp_all
  have "sint (of_nat n :: cint) = signed_take_bit 31 (int n)"
    by (simp add: signed_of_nat)
  also have "\<dots> = int n" using c b by (rule signed_take_bit_int_eq_self)
  finally show ?thesis .
qed

text \<open>An error pointer, cut down to an \<open>int\<close>, is the negative error code it carries.\<close>

lemma sint_ucast_error_pointer:
  fixes p :: "64 word"
  assumes lo: "2 ^ 64 - 4095 \<le> uint p"
  shows "sint (ucast p :: 32 word) = uint p - 2 ^ 64"
proof -
  define x where "x = uint p - 2 ^ 64"
  have hi: "uint p < 2 ^ 64" using uint_bounded [of p] by simp
  have xr: "- (2 ^ 31) \<le> x" "x < 2 ^ 31" using lo hi by (simp_all add: x_def)
  have "uint p = x + 2 ^ 64" by (simp add: x_def)
  then have "(word_of_int (uint p) :: 32 word) = word_of_int (x + 2 ^ 64)" by (rule arg_cong)
  also have "\<dots> = word_of_int x + word_of_int (2 ^ 64)" by (simp only: of_int_add)
  also have "word_of_int (2 ^ 64) = (0 :: 32 word)" by simp
  finally have eq: "(word_of_int (uint p) :: 32 word) = word_of_int x" by simp
  have "sint (word_of_int x :: 32 word) = signed_take_bit 31 x"
    by (simp add: sint_sbintrunc')
  also have "\<dots> = x" using xr by (rule signed_take_bit_int_eq_self)
  finally have "sint (word_of_int x :: 32 word) = x" .
  then show ?thesis using eq by (simp only: ucast_eq x_def)
qed

lemma IS_ERR_uint: "IS_ERR p \<longleftrightarrow> 2 ^ 64 - 4095 \<le> uint p"
  by (simp add: IS_ERR_def MAX_ERRNO_def word_le_def)

lemma IS_ERR_negative:
  assumes "IS_ERR p"
  shows "sint (ucast (PTR_ERR p) :: cint) < 0 \<and> - 4095 \<le> sint (ucast (PTR_ERR p) :: cint)"
proof -
  have lo: "2 ^ 64 - 4095 \<le> uint p" using assms by (simp only: IS_ERR_uint)
  have hi: "uint p < 2 ^ 64" using uint_bounded [of p] by simp
  show ?thesis unfolding PTR_ERR_def sint_ucast_error_pointer [OF lo] using lo hi by simp
qed

lemma unat_chunk:
  "256 * k < (2::nat) ^ 64 \<Longrightarrow> unat (of_nat (256 * k) :: 64 word) = 256 * k"
  by (simp add: unat_of_nat del: of_nat_mult)

section \<open>The loop of \<open>dev_write\<close>\<close>

text \<open>
  The loop variable advances without wrapping while the length leaves room for one more
  stride below \<open>2 ^ 64\<close>.
\<close>

lemma step_no_wrap:
  assumes "i < len" "unat len \<le> 2 ^ 64 - 256"
  shows "unat (i + sizeof_message) = unat i + 256"
proof -
  have "unat i < unat len" using assms(1) by (simp add: word_less_nat_alt)
  then have "unat i + unat sizeof_message < 2 ^ 64"
    using assms(2) by (simp add: unat_sizeof_message)
  then show ?thesis
    by (simp add: unat_add_lem [THEN iffD1] unat_sizeof_message)
qed

text \<open>For such a length the loop ends, from every value of the loop variable.\<close>

lemma loop_terminates:
  assumes "unat len \<le> 2 ^ 64 - 256"
  shows "\<exists>st'. dev_write_loop buffer len i st = Some st'"
proof (induction "unat len - unat i" arbitrary: i st rule: less_induct)
  case less
  show ?case
  proof (cases "i < len")
    case False
    then show ?thesis by (subst dev_write_loop.simps) simp
  next
    case True
    have lt: "unat i < unat len" using True by (simp add: word_less_nat_alt)
    have "unat (i + sizeof_message) = unat i + 256" using True assms by (rule step_no_wrap)
    then have "unat len - unat (i + sizeof_message) < unat len - unat i" using lt by simp
    from less [OF this] obtain st' where
      "dev_write_loop buffer len (i + sizeof_message) (dev_write_body buffer len i st) = Some st'"
      by blast
    then show ?thesis using True by (subst dev_write_loop.simps) simp
  qed
qed

lemma dev_write_total:
  assumes "unat len \<le> 2 ^ 64 - 256"
  shows "\<exists>st'. dev_write buffer len st = Some (len, st')"
proof -
  from loop_terminates [OF assms] obtain st' where
    "dev_write_loop buffer len 0
       (printk KERN_INFO (device_name st @ '': Received '' @ fmt_zu len
          @ '' characters from the user. Message: '') st) = Some st'"
    by blast
  then show ?thesis by (simp add: dev_write_def Let_def)
qed

subsection \<open>What \<open>copy_from_user\<close> touches\<close>

lemma copy_from_user_frame: "drop n (fst (copy_from_user to buffer off n)) = drop n to"
  by (simp add: copy_from_user_def Let_def)

lemma copy_from_user_length:
  "n \<le> length to \<Longrightarrow> length (fst (copy_from_user to buffer off n)) = length to"
  by (simp add: copy_from_user_def Let_def)

lemma copy_from_user_success:
  "0 \<le> off \<Longrightarrow> nat off + n \<le> length buffer \<Longrightarrow>
   copy_from_user to buffer off n = (take n (drop (nat off) buffer) @ drop n to, 0)"
  by (simp add: copy_from_user_def Let_def)

lemma copy_from_user_fault:
  "snd (copy_from_user to [] off n) = n"
  by (simp add: copy_from_user_def Let_def)

subsection \<open>One pass through the body\<close>

lemma body_full:
  assumes "256 \<le> unat (len - i)"
  shows "dev_write_body buffer len i st =
     printk_message KERN_INFO
       (st\<lparr>message := fst (copy_from_user (message st) buffer (sint i) 256)\<rparr>)"
proof (cases "len - i > sizeof_message")
  case True
  then show ?thesis by (simp add: dev_write_body_def Let_def unat_sizeof_message)
next
  case False
  then have "unat (len - i) \<le> 256"
    by (simp add: word_less_nat_alt unat_sizeof_message not_less)
  then have "unat (len - i) = 256" using assms by simp
  then show ?thesis using False by (simp add: dev_write_body_def Let_def)
qed

lemma body_short:
  assumes "unat (len - i) < 256"
  shows "dev_write_body buffer len i st =
     printk_message KERN_INFO
       (st\<lparr>message := fst (copy_from_user (message st) buffer (sint i) (unat (len - i)))\<rparr>)"
proof -
  have "\<not> len - i > sizeof_message"
    using assms by (simp add: word_less_nat_alt unat_sizeof_message)
  then show ?thesis by (simp add: dev_write_body_def Let_def)
qed

lemma body_keeps:
  "device_name (dev_write_body buffer len i st) = device_name st \<and>
   numberOpens (dev_write_body buffer len i st) = numberOpens st \<and>
   live (dev_write_body buffer len i st) = live st \<and>
   released (dev_write_body buffer len i st) = released st"
  by (simp add: dev_write_body_def Let_def printk_message_def)

lemma body_keeps_length:
  assumes "length (message st) = 256"
  shows "length (message (dev_write_body buffer len i st)) = 256"
proof (cases "len - i > sizeof_message")
  case True
  then show ?thesis
    using assms
    by (simp add: dev_write_body_def Let_def printk_message_def copy_from_user_length
        unat_sizeof_message)
next
  case False
  then have "unat (len - i) \<le> 256"
    by (simp add: word_less_nat_alt unat_sizeof_message not_less)
  then show ?thesis
    using assms False
    by (simp add: dev_write_body_def Let_def printk_message_def copy_from_user_length)
qed

subsection \<open>Invariants of the loop\<close>

lemma loop_keeps_device_name:
  assumes "dev_write_loop buffer len i st = Some st'"
  shows "device_name st' = device_name st"
  by (rule dev_write_loop.raw_induct
        [where P = "\<lambda>buffer len i st st'. device_name st' = device_name st", OF _ assms])
     (auto simp: body_keeps split: if_splits)

lemma loop_keeps_numberOpens:
  assumes "dev_write_loop buffer len i st = Some st'"
  shows "numberOpens st' = numberOpens st"
  by (rule dev_write_loop.raw_induct
        [where P = "\<lambda>buffer len i st st'. numberOpens st' = numberOpens st", OF _ assms])
     (auto simp: body_keeps split: if_splits)

lemma loop_keeps_length:
  assumes "dev_write_loop buffer len i st = Some st'"
  shows "length (message st) = 256 \<Longrightarrow> length (message st') = 256"
  by (rule dev_write_loop.raw_induct
        [where P = "\<lambda>buffer len i st st'.
                      length (message st) = 256 \<longrightarrow> length (message st') = 256",
         OF _ assms, rule_format])
     (auto simp: body_keeps_length split: if_splits)

lemma init_state_length: "length (message init_state) = 256"
  by (simp add: init_state_def)

text \<open>The array \<open>message\<close> has 256 bytes before and after every write.\<close>

lemma dev_write_keeps_length:
  assumes "dev_write buffer len st = Some (n, st')" and "length (message st) = 256"
  shows "length (message st') = 256"
proof -
  let ?st1 = "printk KERN_INFO (device_name st @ '': Received '' @ fmt_zu len
                @ '' characters from the user. Message: '') st"
  have "dev_write_loop buffer len 0 ?st1 = Some st'"
    using assms(1) by (simp add: dev_write_def Let_def split: option.splits)
  moreover have "length (message ?st1) = 256" using assms(2) by (simp add: printk_def)
  ultimately show ?thesis by (rule loop_keeps_length)
qed

subsection \<open>Splitting the loop at a chunk boundary\<close>

text \<open>
  The passes below the boundary \<open>256 * q\<close> do the same whether the loop runs to \<open>len\<close> or
  only to the boundary: each of them copies a whole chunk.
\<close>

lemma loop_prefix:
  assumes q: "256 * q \<le> unat len"
  shows "k \<le> q \<Longrightarrow>
    dev_write_loop buffer len (of_nat (256 * k)) st =
      (case dev_write_loop buffer (of_nat (256 * q)) (of_nat (256 * k)) st of
         None \<Rightarrow> None
       | Some mid \<Rightarrow> dev_write_loop buffer len (of_nat (256 * q)) mid)"
proof (induction "q - k" arbitrary: k st)
  case 0
  then have "k = q" by simp
  then show ?case by (subst (2) dev_write_loop.simps) simp
next
  case (Suc d)
  then have kq: "Suc k \<le> q" and d: "d = q - Suc k" by simp_all
  have lenb: "unat len < 2 ^ 64" using unsigned_less [of len, where ?'a = nat] by simp
  have qb: "256 * q < 2 ^ 64" using q lenb by simp
  have kb: "256 * k < 2 ^ 64" using kq qb by simp
  let ?i = "of_nat (256 * k) :: 64 word"
  let ?Q = "of_nat (256 * q) :: 64 word"
  have ui: "unat ?i = 256 * k" using kb by (rule unat_chunk)
  have uQ: "unat ?Q = 256 * q" using qb by (rule unat_chunk)
  have iQ: "?i < ?Q" using kq by (simp add: word_less_nat_alt ui uQ del: of_nat_mult)
  have il: "?i < len" using kq q by (simp add: word_less_nat_alt ui del: of_nat_mult)
  have next_i: "?i + sizeof_message = of_nat (256 * Suc k)" by (simp add: sizeof_message_def)
  have r1: "unat (len - ?i) = unat len - 256 * k"
    using il by (simp add: unat_sub word_le_less_eq ui del: of_nat_mult)
  have r2: "unat (?Q - ?i) = 256 * q - 256 * k"
    using iQ by (simp add: unat_sub word_le_less_eq ui uQ del: of_nat_mult)
  have b1: "256 \<le> unat (len - ?i)" using r1 kq q by simp
  have b2: "256 \<le> unat (?Q - ?i)" using r2 kq by simp
  have body: "dev_write_body buffer len ?i st = dev_write_body buffer ?Q ?i st"
    by (simp only: body_full [OF b1] body_full [OF b2])
  have "dev_write_loop buffer len ?i st =
        dev_write_loop buffer len (of_nat (256 * Suc k)) (dev_write_body buffer len ?i st)"
    using il by (subst dev_write_loop.simps) (simp only: next_i if_True)
  also have "\<dots> =
      (case dev_write_loop buffer ?Q (of_nat (256 * Suc k)) (dev_write_body buffer len ?i st) of
         None \<Rightarrow> None
       | Some mid \<Rightarrow> dev_write_loop buffer len ?Q mid)"
    using Suc.hyps(1) [OF d kq] .
  also have "dev_write_loop buffer ?Q (of_nat (256 * Suc k)) (dev_write_body buffer len ?i st) =
     dev_write_loop buffer ?Q ?i st"
    using iQ by (subst (2) dev_write_loop.simps) (simp only: next_i if_True body)
  finally show ?case .
qed

text \<open>When at most one chunk is left, one pass ends the loop.\<close>

lemma final_iteration:
  assumes "i < len" "unat (len - i) \<le> 256" "unat len \<le> 2 ^ 64 - 256"
  shows "dev_write_loop buffer len i st = Some (dev_write_body buffer len i st)"
proof -
  have "unat (len - i) = unat len - unat i"
    using assms(1) by (simp add: unat_sub word_le_less_eq)
  then have "unat len \<le> unat i + 256" using assms(2) by simp
  moreover have "unat (i + sizeof_message) = unat i + 256"
    using assms(1,3) by (rule step_no_wrap)
  ultimately have "\<not> i + sizeof_message < len" by (simp add: word_less_nat_alt)
  then have "dev_write_loop buffer len (i + sizeof_message) (dev_write_body buffer len i st)
           = Some (dev_write_body buffer len i st)"
    by (subst dev_write_loop.simps) simp
  then show ?thesis using assms(1) by (subst dev_write_loop.simps) simp
qed

subsection \<open>A length for which the loop never ends\<close>

text \<open>
  The loop variable is a multiple of 256 throughout. For the length \<open>2 ^ 64 - 1\<close> it stays
  below the length up to \<open>2 ^ 64 - 256\<close>, and the next stride takes it back to 0.
\<close>

lemma stride_keeps_multiple:
  fixes i :: "64 word"
  assumes "256 dvd unat i"
  shows "256 dvd unat (i + sizeof_message)"
proof -
  have "unat (i + sizeof_message) = (unat i + 256) mod 2 ^ 64"
    by (simp add: unat_word_ariths unat_sizeof_message)
  moreover have "(256::nat) dvd 2 ^ 64" by simp
  moreover have "256 dvd unat i + 256" using assms by simp
  ultimately show ?thesis by (simp add: dvd_mod)
qed

lemma loop_at_size_max:
  assumes "dev_write_loop buffer len i st = Some st'"
  shows "\<not> (len = 0xFFFFFFFFFFFFFFFF \<and> 256 dvd unat i)"
proof (rule dev_write_loop.raw_induct
        [where P = "\<lambda>buffer len i st st'. \<not> (len = 0xFFFFFFFFFFFFFFFF \<and> 256 dvd unat i)",
         OF _ assms])
  fix loop :: "byte list \<Rightarrow> size_t \<Rightarrow> llong \<Rightarrow> state \<Rightarrow> state option"
    and buffer len i st st'
  assume IH: "\<And>buffer len i st st'. loop buffer len i st = Some st' \<Longrightarrow>
                \<not> (len = 0xFFFFFFFFFFFFFFFF \<and> 256 dvd unat i)"
    and eq: "(if i < len
              then loop buffer len (i + sizeof_message) (dev_write_body buffer len i st)
              else Some st) = Some st'"
  show "\<not> (len = 0xFFFFFFFFFFFFFFFF \<and> 256 dvd unat i)"
  proof
    assume a: "len = 0xFFFFFFFFFFFFFFFF \<and> 256 dvd unat i"
    show False
    proof (cases "i < len")
      case True
      then have "loop buffer len (i + sizeof_message) (dev_write_body buffer len i st) = Some st'"
        using eq by simp
      from IH [OF this] show False using a stride_keeps_multiple by blast
    next
      case False
      then have "unat len \<le> unat i" by (simp add: not_less word_le_nat_alt)
      then have "18446744073709551615 \<le> unat i" using a by simp
      moreover have "unat i < 18446744073709551616"
        using unsigned_less [of i, where ?'a = nat] by simp
      ultimately have "unat i = 18446744073709551615" by simp
      then show False using a by simp
    qed
  qed
qed

lemma dev_write_never_returns:
  "dev_write buffer 0xFFFFFFFFFFFFFFFF st = None"
proof (cases "dev_write buffer 0xFFFFFFFFFFFFFFFF st")
  case None
  then show ?thesis .
next
  case (Some r)
  then obtain st' where "dev_write_loop buffer 0xFFFFFFFFFFFFFFFF 0
       (printk KERN_INFO (device_name st @ '': Received '' @ fmt_zu 0xFFFFFFFFFFFFFFFF
          @ '' characters from the user. Message: '') st) = Some st'"
    by (auto simp: dev_write_def Let_def split: option.splits)
  from loop_at_size_max [OF this] show ?thesis by simp
qed

section \<open>Initialization and teardown\<close>

lemmas init_defs =
  dummycdd_init_def Let_def printk_def register_chrdev_def class_create_def
  device_create_def class_destroy_def class_unregister_def unregister_chrdev_def
  release_def acquire_def

lemma init_device_name:
  "device_name (snd (dummycdd_init k st)) = sprintf_device_name (id_param st)"
  by (simp add: init_defs split: prod.splits)

lemma default_device_name: "sprintf_device_name (id_param init_state) = ''dummycdd1''"
  by (simp add: sprintf_device_name_def DEVICE_NAME_def fmt_d_def dec_nat.simps
      digit_char_def init_state_def)

text \<open>A fully successful initialization: what it returns, what it holds, what it stores.\<close>

lemma init_success:
  assumes "\<not> sint (register_chrdev_ans k) < 0" "\<not> IS_ERR (class_create_ans k)"
    "\<not> IS_ERR (device_create_ans k)"
  shows "fst (dummycdd_init k st) = 0 \<and>
     live (snd (dummycdd_init k st)) =
        [Device (class_create_ans k) (MKDEV (register_chrdev_ans k) 0),
         Class (class_create_ans k),
         Chrdev (register_chrdev_ans k) (sprintf_device_name (id_param st))] @ live st \<and>
     released (snd (dummycdd_init k st)) = released st \<and>
     majorNumber (snd (dummycdd_init k st)) = register_chrdev_ans k \<and>
     dummyClass (snd (dummycdd_init k st)) = class_create_ans k \<and>
     dummyDevice (snd (dummycdd_init k st)) = device_create_ans k"
  using assms by (simp add: init_defs)

text \<open>
  Teardown after a fully successful initialization, for all answers of the kernel: the
  class is released by \<open>class_unregister\<close> and once more by \<open>class_destroy\<close>.
\<close>

lemma exit_after_init:
  assumes "\<not> sint (register_chrdev_ans k) < 0" "\<not> IS_ERR (class_create_ans k)"
    "class_create_ans k \<noteq> 0" "\<not> IS_ERR (device_create_ans k)"
  shows "released (dummycdd_exit (snd (dummycdd_init k st))) = released st @
     [Device (class_create_ans k) (MKDEV (register_chrdev_ans k) 0),
      Class (class_create_ans k), Class (class_create_ans k),
      Chrdev (register_chrdev_ans k) (sprintf_device_name (id_param st))]
    \<and> live (dummycdd_exit (snd (dummycdd_init k st))) =
        remove1 (Class (class_create_ans k)) (live st)"
proof -
  let ?s = "snd (dummycdd_init k st)"
  have s: "live ?s = [Device (class_create_ans k) (MKDEV (register_chrdev_ans k) 0),
         Class (class_create_ans k),
         Chrdev (register_chrdev_ans k) (sprintf_device_name (id_param st))] @ live st"
     "released ?s = released st" "majorNumber ?s = register_chrdev_ans k"
     "dummyClass ?s = class_create_ans k"
    using init_success [OF assms(1,2,4), of st] by simp_all
  have n: "device_name ?s = sprintf_device_name (id_param st)" by (rule init_device_name)
  show ?thesis using assms(2,3) s n
    by (simp add: dummycdd_exit_def Let_def printk_def device_destroy_def class_destroy_def
      class_unregister_def unregister_chrdev_def release_def)
qed

text \<open>
  C3. When the major number and the class have been obtained and \<open>device_create\<close> answers
  an error pointer, \<open>dummycdd_init\<close> releases the class, then the major number, and returns
  the negative error code of the pointer. The resources allocated in the kernel are then
  those allocated before the call. (\<open>class_create\<close> does not answer a null pointer. The
  variables \<open>majorNumber\<close> and \<open>dummyClass\<close> keep the values they were given.)
\<close>

theorem init_device_failure_rolls_back:
  assumes "\<not> sint (register_chrdev_ans k) < 0"
    and "\<not> IS_ERR (class_create_ans k)" and "class_create_ans k \<noteq> 0"
    and "IS_ERR (device_create_ans k)"
  shows "fst (dummycdd_init k st) = ucast (PTR_ERR (device_create_ans k)) \<and>
     sint (fst (dummycdd_init k st)) < 0 \<and>
     live (snd (dummycdd_init k st)) = live st \<and>
     released (snd (dummycdd_init k st)) =
       released st @ [Class (class_create_ans k),
                      Chrdev (register_chrdev_ans k) (sprintf_device_name (id_param st))]"
proof -
  have "fst (dummycdd_init k st) = ucast (PTR_ERR (device_create_ans k))"
    using assms by (simp add: init_defs)
  moreover have "live (snd (dummycdd_init k st)) = live st"
    using assms by (simp add: init_defs)
  moreover have "released (snd (dummycdd_init k st)) =
       released st @ [Class (class_create_ans k),
                      Chrdev (register_chrdev_ans k) (sprintf_device_name (id_param st))]"
    using assms by (simp add: init_defs)
  ultimately show ?thesis using IS_ERR_negative [OF assms(4)] by simp
qed

text \<open>
  Loading the module with major number 240 and a class granted, and the device refused
  with \<open>-ENOMEM\<close>: the call returns \<open>-12\<close>, nothing is left allocated, and the class and the
  number have been released in this order.
\<close>

theorem init_device_failure_enomem:
  "\<not> sint (register_chrdev_ans answers_device_fails) < 0 \<and>
   \<not> IS_ERR (class_create_ans answers_device_fails) \<and>
   class_create_ans answers_device_fails \<noteq> 0 \<and>
   IS_ERR (device_create_ans answers_device_fails) \<and>
   sint (fst (dummycdd_init answers_device_fails init_state)) = - 12 \<and>
   live (snd (dummycdd_init answers_device_fails init_state)) = [] \<and>
   released (snd (dummycdd_init answers_device_fails init_state)) =
     [Class 0xFFFF888000100000, Chrdev 240 ''dummycdd1'']"
proof -
  have h: "\<not> sint (register_chrdev_ans answers_device_fails) < 0"
    "\<not> IS_ERR (class_create_ans answers_device_fails)"
    "class_create_ans answers_device_fails \<noteq> 0"
    "IS_ERR (device_create_ans answers_device_fails)"
    by (simp_all add: answers_device_fails_def IS_ERR_def MAX_ERRNO_def)
  show ?thesis
    using init_device_failure_rolls_back [OF h, of init_state] h default_device_name
    by (simp add: answers_device_fails_def PTR_ERR_def init_state_def)
qed

text \<open>
  C4. When \<open>register_chrdev\<close> answers a negative number, \<open>dummycdd_init\<close> returns that
  number at once: nothing has been allocated and nothing is released. When the major
  number has been obtained and \<open>class_create\<close> answers an error pointer, \<open>dummycdd_init\<close>
  releases the major number, and nothing else, and returns the negative error code of the
  pointer; the resources allocated in the kernel are then those allocated before the call.
\<close>

theorem init_early_failures_roll_back:
  "(sint (register_chrdev_ans k) < 0 \<longrightarrow>
      fst (dummycdd_init k st) = register_chrdev_ans k \<and>
      live (snd (dummycdd_init k st)) = live st \<and>
      released (snd (dummycdd_init k st)) = released st) \<and>
   (\<not> sint (register_chrdev_ans k) < 0 \<and> IS_ERR (class_create_ans k) \<longrightarrow>
      fst (dummycdd_init k st) = ucast (PTR_ERR (class_create_ans k)) \<and>
      sint (fst (dummycdd_init k st)) < 0 \<and>
      live (snd (dummycdd_init k st)) = live st \<and>
      released (snd (dummycdd_init k st)) =
        released st @ [Chrdev (register_chrdev_ans k) (sprintf_device_name (id_param st))])"
proof (intro conjI impI)
  assume a: "sint (register_chrdev_ans k) < 0"
  show "fst (dummycdd_init k st) = register_chrdev_ans k"
    using a by (simp add: init_defs)
  show "live (snd (dummycdd_init k st)) = live st"
    using a by (simp add: init_defs)
  show "released (snd (dummycdd_init k st)) = released st"
    using a by (simp add: init_defs)
next
  assume b: "\<not> sint (register_chrdev_ans k) < 0 \<and> IS_ERR (class_create_ans k)"
  show r: "fst (dummycdd_init k st) = ucast (PTR_ERR (class_create_ans k))"
    using b by (simp add: init_defs)
  show "sint (fst (dummycdd_init k st)) < 0"
    using b IS_ERR_negative [of "class_create_ans k"] by (simp add: r)
  show "live (snd (dummycdd_init k st)) = live st"
    using b by (simp add: init_defs)
  show "released (snd (dummycdd_init k st)) =
        released st @ [Chrdev (register_chrdev_ans k) (sprintf_device_name (id_param st))]"
    using b by (simp add: init_defs)
qed

text \<open>
  The major number refused with \<open>-EBUSY\<close>: the call returns \<open>-16\<close> and releases nothing.
  The major number 240 granted and the class refused with \<open>-ENOMEM\<close>: the call returns
  \<open>-12\<close> and has released the number.
\<close>

theorem init_early_failures_ebusy_enomem:
  "sint (register_chrdev_ans answers_number_fails) < 0 \<and>
   sint (fst (dummycdd_init answers_number_fails init_state)) = - 16 \<and>
   live (snd (dummycdd_init answers_number_fails init_state)) = [] \<and>
   released (snd (dummycdd_init answers_number_fails init_state)) = [] \<and>
   \<not> sint (register_chrdev_ans answers_class_fails) < 0 \<and>
   IS_ERR (class_create_ans answers_class_fails) \<and>
   sint (fst (dummycdd_init answers_class_fails init_state)) = - 12 \<and>
   live (snd (dummycdd_init answers_class_fails init_state)) = [] \<and>
   released (snd (dummycdd_init answers_class_fails init_state)) = [Chrdev 240 ''dummycdd1'']"
proof -
  have h1: "sint (register_chrdev_ans answers_number_fails) < 0"
    by (simp add: answers_number_fails_def)
  have h2: "\<not> sint (register_chrdev_ans answers_class_fails) < 0 \<and>
    IS_ERR (class_create_ans answers_class_fails)"
    by (simp add: answers_class_fails_def IS_ERR_def MAX_ERRNO_def)
  show ?thesis
    using init_early_failures_roll_back [of answers_number_fails init_state]
      init_early_failures_roll_back [of answers_class_fails init_state] h1 h2
      default_device_name
    by (simp add: answers_number_fails_def answers_class_fails_def PTR_ERR_def init_state_def)
qed

text \<open>
  C5 asks that teardown after a fully successful initialization release the device node,
  the class and the device number once each, in this order. The code releases the class
  twice. After the module has been loaded with major number 240 and both pointers granted,
  \<open>dummycdd_exit\<close> performs four releases: the device node, the class (by
  \<open>class_unregister\<close>), the class again (by \<open>class_destroy\<close>), the device number.
\<close>

theorem exit_releases_class_twice:
  "released (dummycdd_exit (snd (dummycdd_init answers_ok init_state))) =
     [Device 0xFFFF888000100000 (MKDEV 240 0), Class 0xFFFF888000100000,
      Class 0xFFFF888000100000, Chrdev 240 ''dummycdd1''] \<and>
   count_list (released (dummycdd_exit (snd (dummycdd_init answers_ok init_state))))
     (Class 0xFFFF888000100000) = 2"
proof -
  have h: "\<not> sint (register_chrdev_ans answers_ok) < 0"
    "\<not> IS_ERR (class_create_ans answers_ok)"
    "class_create_ans answers_ok \<noteq> 0" "\<not> IS_ERR (device_create_ans answers_ok)"
    by (simp_all add: answers_ok_def IS_ERR_def MAX_ERRNO_def)
  show ?thesis using exit_after_init [OF h, of init_state] default_device_name
    by (simp add: answers_ok_def init_state_def)
qed

section \<open>The device name\<close>

lemma dev_write_keeps_device_name:
  assumes "dev_write buffer len st = Some (n, st')"
  shows "device_name st' = device_name st"
proof -
  let ?st1 = "printk KERN_INFO (device_name st @ '': Received '' @ fmt_zu len
                @ '' characters from the user. Message: '') st"
  have "dev_write_loop buffer len 0 ?st1 = Some st'"
    using assms by (simp add: dev_write_def Let_def split: option.splits)
  then have "device_name st' = device_name ?st1" by (rule loop_keeps_device_name)
  then show ?thesis by (simp add: printk_def)
qed

text \<open>
  C8. \<open>dummycdd_init\<close> sets the device name to the base name \<open>dummycdd\<close> followed by the
  decimal rendering of the parameter \<open>id\<close>, whatever the kernel answers: for \<open>id = 1\<close> the
  name is \<open>dummycdd1\<close>, for \<open>id = 42\<close> it is \<open>dummycdd42\<close>. No other function of the driver
  changes the name: \<open>dev_open\<close>, \<open>dev_release\<close>, \<open>dummycdd_exit\<close> and a \<open>dev_write\<close> that
  returns leave it as it is.
\<close>

theorem device_name_derivation:
  "device_name (snd (dummycdd_init k (st\<lparr>id_param := 1\<rparr>))) = ''dummycdd1'' \<and>
   device_name (snd (dummycdd_init k (st\<lparr>id_param := 42\<rparr>))) = ''dummycdd42'' \<and>
   device_name (snd (dummycdd_init k st)) = DEVICE_NAME @ fmt_d (id_param st) \<and>
   device_name (snd (dev_open st)) = device_name st \<and>
   device_name (snd (dev_release st)) = device_name st \<and>
   device_name (dummycdd_exit st) = device_name st \<and>
   (dev_write buffer len st = Some (n, st') \<longrightarrow> device_name st' = device_name st)"
proof (intro conjI impI)
  show "device_name (snd (dummycdd_init k (st\<lparr>id_param := 1\<rparr>))) = ''dummycdd1''"
    by (simp add: init_device_name sprintf_device_name_def DEVICE_NAME_def fmt_d_def
        dec_nat.simps digit_char_def)
  show "device_name (snd (dummycdd_init k (st\<lparr>id_param := 42\<rparr>))) = ''dummycdd42''"
    by (simp add: init_device_name sprintf_device_name_def DEVICE_NAME_def fmt_d_def
        dec_nat.simps digit_char_def)
  show "device_name (snd (dummycdd_init k st)) = DEVICE_NAME @ fmt_d (id_param st)"
    by (simp add: init_device_name sprintf_device_name_def)
  show "device_name (snd (dev_open st)) = device_name st"
    by (simp add: dev_open_def Let_def printk_def)
  show "device_name (snd (dev_release st)) = device_name st"
    by (simp add: dev_release_def Let_def printk_def)
  show "device_name (dummycdd_exit st) = device_name st"
    by (simp add: dummycdd_exit_def Let_def printk_def device_destroy_def class_destroy_def
        class_unregister_def unregister_chrdev_def release_def)
  show "device_name st' = device_name st" if "dev_write buffer len st = Some (n, st')"
    using that by (rule dev_write_keeps_device_name)
qed

text \<open>
  A module loaded with the default \<open>id\<close> is named \<open>dummycdd1\<close>, and is still so named after
  two bytes have been written to it.
\<close>

theorem device_name_after_a_write:
  "device_name (snd (dummycdd_init answers_ok init_state)) = ''dummycdd1'' \<and>
   (\<exists>n st'. dev_write [0x68, 0x69] 2 (snd (dummycdd_init answers_ok init_state)) = Some (n, st')
      \<and> device_name st' = ''dummycdd1'')"
proof -
  let ?s = "snd (dummycdd_init answers_ok init_state)"
  have "unat (2 :: size_t) \<le> 2 ^ 64 - 256" by simp
  from dev_write_total [OF this] obtain st' where
    w: "dev_write [0x68, 0x69] 2 ?s = Some (2, st')" by blast
  have name: "device_name ?s = ''dummycdd1''"
    using device_name_derivation [of answers_ok init_state]
    by (simp add: DEVICE_NAME_def fmt_d_def dec_nat.simps digit_char_def init_state_def)
  have "device_name st' = device_name ?s"
    using device_name_derivation [of answers_ok ?s "[0x68, 0x69]" 2 2 st'] w by blast
  then show ?thesis using w name by auto
qed

section \<open>Open and release\<close>

lemma dev_open_counter: "numberOpens (snd (dev_open st)) = numberOpens st + 1"
  by (simp add: dev_open_def Let_def printk_def)

lemma dev_release_counter: "numberOpens (snd (dev_release st)) = numberOpens st"
  by (simp add: dev_release_def Let_def printk_def)

lemma length_open_n: "length (open_n n st) = n"
  by (induction n arbitrary: st) simp_all

text \<open>The counter after the \<open>k+1\<close>-th open in a row, in 32-bit arithmetic.\<close>

lemma open_n_nth:
  "k < n \<Longrightarrow> numberOpens (open_n n st ! k) = numberOpens st + of_nat (Suc k)"
proof (induction n arbitrary: st k)
  case 0
  then show ?case by simp
next
  case (Suc n)
  show ?case
  proof (cases k)
    case 0
    then show ?thesis by (simp add: dev_open_counter)
  next
    case (Suc j)
    then have "j < n" using Suc.prems by simp
    then show ?thesis using Suc.IH [of j "snd (dev_open st)"] Suc
      by (simp add: dev_open_counter)
  qed
qed

text \<open>
  C7, as the code has it. The counter \<open>numberOpens\<close> is an \<open>int\<close>. For every \<open>N\<close> below
  \<open>2 ^ 31\<close>, \<open>N\<close> opens in a row from the initial state show the counter values
  \<open>1, 2, ..., N\<close> in this order. In every state an open adds one to the counter in 32-bit
  arithmetic, and a release leaves the counter as it is.
\<close>

theorem open_counts_up_to_int_max:
  "(N < 2 ^ 31 \<longrightarrow>
      map (sint \<circ> numberOpens) (open_n N init_state) = map int [1..<Suc N])
   \<and> numberOpens (snd (dev_open st)) = numberOpens st + 1
   \<and> numberOpens (snd (dev_release st)) = numberOpens st"
proof (intro conjI impI)
  assume N: "N < 2 ^ 31"
  show "map (sint \<circ> numberOpens) (open_n N init_state) = map int [1..<Suc N]"
  proof (rule nth_equalityI)
    show "length (map (sint \<circ> numberOpens) (open_n N init_state)) = length (map int [1..<Suc N])"
      by (simp add: length_open_n)
  next
    fix k assume "k < length (map (sint \<circ> numberOpens) (open_n N init_state))"
    then have k: "k < N" by (simp add: length_open_n)
    then have "Suc k < 2 ^ 31" using N by simp
    then have "sint (of_nat (Suc k) :: cint) = int (Suc k)" by (rule sint_of_nat_small)
    moreover have "numberOpens (open_n N init_state ! k) = of_nat (Suc k)"
      using open_n_nth [OF k, of init_state] by (simp add: init_state_def)
    moreover have "map int [1..<Suc N] ! k = int (Suc k)"
      using k by (simp add: nth_upt del: upt_Suc)
    ultimately show
      "map (sint \<circ> numberOpens) (open_n N init_state) ! k = map int [1..<Suc N] ! k"
      using k by (simp add: length_open_n del: upt_Suc)
  qed
qed (rule dev_open_counter dev_release_counter)+

text \<open>Three opens in a row from the initial state show the counter values 1, 2, 3.\<close>

theorem open_counts_three:
  "(3::nat) < 2 ^ 31 \<and> map (sint \<circ> numberOpens) (open_n 3 init_state) = [1, 2, 3]"
  using open_counts_up_to_int_max [of 3 init_state] by (simp add: upt_rec)

text \<open>
  C7, as the claim has it, fails where the \<open>int\<close> ends: the open number \<open>2 ^ 31\<close> in a row
  from the initial state leaves the counter at \<open>- 2 ^ 31\<close>, not at \<open>2 ^ 31\<close>.
\<close>

theorem open_counter_wraps_at_int_max:
  "sint (numberOpens (open_n 2147483648 init_state ! 2147483647)) = - 2147483648"
proof -
  have "numberOpens (open_n 2147483648 init_state ! 2147483647) =
          numberOpens init_state + of_nat (Suc 2147483647)"
    by (rule open_n_nth) simp
  then show ?thesis by (simp add: init_state_def)
qed

text \<open>
  C9. The open operation and the release operation always succeed: in every state,
  \<open>dev_open\<close> returns 0 and \<open>dev_release\<close> returns 0. Neither has an error path.
\<close>

theorem open_release_return_zero:
  "fst (dev_open st) = 0 \<and> fst (dev_release st) = 0"
  by (simp add: dev_open_def dev_release_def Let_def)

section \<open>Writing\<close>

text \<open>
  C1. A write of a source buffer of \<open>2C + 5\<close> bytes, where \<open>C = sizeof(message) = 256\<close>,
  logs exactly three chunks after its header line and returns \<open>2C + 5\<close>. The first chunk is
  the \<open>C\<close> bytes at source offset 0, the second the \<open>C\<close> bytes at source offset \<open>C\<close>. The
  third pass copies the 5 bytes at offset \<open>2C\<close> over the start of the array, whose other
  bytes still are those of the second chunk.
\<close>

theorem dev_write_three_chunks:
  assumes "length buffer = 2 * unat sizeof_message + 5"
    and "length (message st) = unat sizeof_message"
  shows "dev_write buffer (2 * sizeof_message + 5) st =
    Some (2 * sizeof_message + 5,
      st\<lparr>message := take 5 (drop (2 * unat sizeof_message) buffer)
                       @ drop 5 (take (unat sizeof_message) (drop (unat sizeof_message) buffer)),
         klog := klog st @
           [Printk KERN_INFO
              (device_name st @ '': Received 517 characters from the user. Message: ''),
            Printk_message KERN_INFO (take (unat sizeof_message) buffer),
            Printk_message KERN_INFO
              (take (unat sizeof_message) (drop (unat sizeof_message) buffer)),
            Printk_message KERN_INFO
              (take 5 (drop (2 * unat sizeof_message) buffer)
                 @ drop 5 (take (unat sizeof_message) (drop (unat sizeof_message) buffer)))]\<rparr>)"
  using assms
  by (simp add: dev_write_def dev_write_loop.simps dev_write_body_def printk_def
      printk_message_def fmt_zu_def dec_nat.simps digit_char_def copy_from_user_def
      sizeof_message_def Let_def)

text \<open>The same for 517 letters A written to a freshly loaded module.\<close>

theorem dev_write_three_chunks_of_A:
  "length (replicate 517 (0x41 :: byte)) = 2 * unat sizeof_message + 5 \<and>
   length (message init_state) = unat sizeof_message \<and>
   map_option fst (dev_write (replicate 517 0x41) (2 * sizeof_message + 5) init_state)
     = Some 517 \<and>
   map_option (klog \<circ> snd) (dev_write (replicate 517 0x41) (2 * sizeof_message + 5) init_state) =
     Some [Printk KERN_INFO '': Received 517 characters from the user. Message: '',
           Printk_message KERN_INFO (replicate 256 0x41),
           Printk_message KERN_INFO (replicate 256 0x41),
           Printk_message KERN_INFO (replicate 256 0x41)]"
proof -
  have h1: "length (replicate 517 (0x41 :: byte)) = 2 * unat sizeof_message + 5"
    by (simp add: unat_sizeof_message)
  have h2: "length (message init_state) = unat sizeof_message"
    by (simp add: unat_sizeof_message init_state_def)
  show ?thesis
    using dev_write_three_chunks [OF h1 h2] h1 h2
    by (simp add: unat_sizeof_message init_state_def sizeof_message_def flip: replicate_add)
qed

text \<open>
  C2. Whenever \<open>dev_write\<close> returns, it returns the length it was given: the answer of
  \<open>copy_from_user\<close> is dropped, so a copy that misses bytes changes nothing, and no path
  returns an error or a shorter count. For every length below \<open>2 ^ 63\<close> and every source
  buffer, readable or not, the call does return, and the returned \<open>ssize_t\<close> is the length,
  a non-negative number. These are all the lengths a write call can bring: the kernel
  refuses a count that is negative as \<open>ssize_t\<close> before it calls the write operation of a
  file, and \<open>dev_write\<close> is reached in no other way.
\<close>

theorem dev_write_returns_len:
  "(dev_write buffer len st = Some (ret, st') \<longrightarrow> ret = len) \<and>
   (unat len < 2 ^ 63 \<longrightarrow>
      (\<exists>st'. dev_write buffer len st = Some (len, st')) \<and> sint len = int (unat len))"
proof (intro conjI impI)
  assume "dev_write buffer len st = Some (ret, st')"
  then show "ret = len" by (auto simp: dev_write_def Let_def split: option.splits)
next
  assume a: "unat len < 2 ^ 63"
  then have "unat len \<le> 2 ^ 64 - 256" by simp
  then show "\<exists>st'. dev_write buffer len st = Some (len, st')" by (rule dev_write_total)
  show "sint len = int (unat len)" using a by (rule sint_size_small)
qed

text \<open>
  A write of length 5 from an address where nothing can be read: the copy misses all 5
  bytes, and the call returns 5.
\<close>

theorem dev_write_returns_len_when_copy_fails:
  "unat (5 :: size_t) < 2 ^ 63 \<and> snd (copy_from_user (message init_state) [] 0 5) = 5 \<and>
   (\<exists>st'. dev_write [] 5 init_state = Some (5, st')) \<and> sint (5 :: ssize_t) = 5"
  using dev_write_returns_len [of "[]" 5 init_state]
  by (simp add: copy_from_user_fault)

subsection \<open>The last, short chunk\<close>

text \<open>Writing 255 letters A to a freshly loaded module leaves the state \<open>state_after_A\<close>.\<close>

lemma first_write_A:
  "dev_write (replicate 255 0x41) 255 init_state = Some (255, state_after_A)"
  by (simp add: dev_write_def dev_write_loop.simps dev_write_body_def printk_def
      printk_message_def fmt_zu_def dec_nat.simps digit_char_def copy_from_user_def
      sizeof_message_def Let_def init_state_def state_after_A_def flip: replicate_add)

text \<open>What is printed for an array in two parts.\<close>

lemma takeWhile_nonzero_append:
  fixes a :: "byte list"
  shows "0 \<notin> set a \<Longrightarrow>
    takeWhile (\<lambda>x. x \<noteq> 0) (a @ b) = a @ takeWhile (\<lambda>x. x \<noteq> 0) b"
  by (induction a) auto

lemma c_string_append:
  "c_string (a @ b) =
     (if 0 \<in> set a then Some (takeWhile (\<lambda>x. x \<noteq> 0) a)
      else map_option ((@) a) (c_string b))"
  by (auto simp: c_string_def takeWhile_nonzero_append)

text \<open>
  The bytes the loop leaves in \<open>message\<close> depend on the bytes it finds there and on nothing
  else of the state.
\<close>

lemma body_message:
  "message s = message t \<Longrightarrow>
   message (dev_write_body buffer len i s) = message (dev_write_body buffer len i t)"
  by (simp add: dev_write_body_def printk_message_def Let_def)

lemma loop_message:
  assumes "unat len \<le> 2 ^ 64 - 256"
  shows "message s = message t \<Longrightarrow>
    \<exists>s' t'. dev_write_loop buffer len i s = Some s' \<and> dev_write_loop buffer len i t = Some t'
      \<and> message s' = message t'"
proof (induction "unat len - unat i" arbitrary: i s t rule: less_induct)
  case less
  show ?case
  proof (cases "i < len")
    case False
    then show ?thesis using less.prems by (subst (1 2) dev_write_loop.simps) simp
  next
    case True
    have lt: "unat i < unat len" using True by (simp add: word_less_nat_alt)
    have "unat (i + sizeof_message) = unat i + 256" using True assms by (rule step_no_wrap)
    then have m: "unat len - unat (i + sizeof_message) < unat len - unat i" using lt by simp
    have b: "message (dev_write_body buffer len i s) = message (dev_write_body buffer len i t)"
      using less.prems by (rule body_message)
    from less.hyps [OF m b] obtain s' t' where
      "dev_write_loop buffer len (i + sizeof_message) (dev_write_body buffer len i s) = Some s'"
      "dev_write_loop buffer len (i + sizeof_message) (dev_write_body buffer len i t) = Some t'"
      "message s' = message t'" by blast
    then show ?thesis using True by (subst (1 2) dev_write_loop.simps) simp
  qed
qed

text \<open>The loop with a short last chunk: the whole chunks first, then one pass of \<open>r\<close> bytes.\<close>

lemma short_final_chunk_loop:
  assumes len: "unat len = 256 * q + r" and r: "0 < r" "r < 256"
    and fin: "unat len \<le> 2 ^ 64 - 256"
  shows "\<exists>mid fin.
     dev_write_loop buffer (of_nat (256 * q)) 0 st = Some mid \<and>
     dev_write_loop buffer len 0 st = Some fin \<and>
     message fin =
       fst (copy_from_user (message mid) buffer (sint (of_nat (256 * q) :: llong)) r) \<and>
     klog fin = klog mid @ [Printk_message KERN_INFO (message fin)]"
proof -
  let ?Q = "of_nat (256 * q) :: 64 word"
  have lenb: "unat len < 2 ^ 64" using unsigned_less [of len, where ?'a = nat] by simp
  have qb: "256 * q < 2 ^ 64" using len lenb by simp
  have uQ: "unat ?Q = 256 * q" using qb by (rule unat_chunk)
  have "unat ?Q \<le> 2 ^ 64 - 256" using uQ len fin by simp
  from loop_terminates [OF this] obtain mid where
    mid: "dev_write_loop buffer ?Q 0 st = Some mid" by blast
  have ql: "256 * q \<le> unat len" using len by simp
  have "dev_write_loop buffer len (of_nat (256 * 0)) st =
      (case dev_write_loop buffer ?Q (of_nat (256 * 0)) st of
         None \<Rightarrow> None | Some mid \<Rightarrow> dev_write_loop buffer len ?Q mid)"
    by (rule loop_prefix [OF ql]) simp
  then have split: "dev_write_loop buffer len 0 st = dev_write_loop buffer len ?Q mid"
    using mid by simp
  have Ql: "?Q < len" using len r by (simp add: word_less_nat_alt uQ del: of_nat_mult)
  have rem: "unat (len - ?Q) = r"
    using Ql len by (simp add: unat_sub word_le_less_eq uQ del: of_nat_mult)
  have "dev_write_loop buffer len ?Q mid = Some (dev_write_body buffer len ?Q mid)"
    using Ql rem r fin by (intro final_iteration) simp_all
  moreover have "dev_write_body buffer len ?Q mid =
     printk_message KERN_INFO
       (mid\<lparr>message := fst (copy_from_user (message mid) buffer (sint ?Q) r)\<rparr>)"
    using body_short [of len ?Q buffer mid] rem r by simp
  ultimately have "dev_write_loop buffer len 0 st = Some (printk_message KERN_INFO
       (mid\<lparr>message := fst (copy_from_user (message mid) buffer (sint ?Q) r)\<rparr>))"
    using split by simp
  then show ?thesis using mid
    by (simp add: printk_message_def del: of_nat_mult)
qed

lemma copy_from_user_take:
  "length (take n (fst (copy_from_user to buffer off n))) = n"
  by (simp add: copy_from_user_def Let_def)

text \<open>
  C6, as the code has it. Take a write \<open>dev_write buffer len st\<close> whose length is
  \<open>256 * q + r\<close> with \<open>0 < r < 256\<close>, so that its last chunk is short, and whose loop ends.
  Let \<open>mid\<close> be the state that a write of the \<open>q\<close> whole chunks alone leaves; for \<open>q = 0\<close> its
  array is the one from before the write. The last pass overwrites the first \<open>r\<close> bytes of
  \<open>message\<close> and no other: in the state \<open>fin\<close> after the write, every byte from offset \<open>r\<close>
  on is the byte of \<open>mid\<close>, left by the chunk before or by an earlier write. The last call
  of \<open>printk\<close> is handed this whole array. What it prints is the C string at the start of
  the array, which is not cut at \<open>r\<close>: if one of the \<open>r\<close> fresh bytes is zero, the text ends
  before it; if none is, the text is the \<open>r\<close> fresh bytes followed by the stale bytes up to
  their first zero byte.
\<close>

theorem short_final_chunk_keeps_stale_tail:
  assumes len: "unat len = 256 * q + r" and r: "0 < r" "r < 256"
    and fin: "unat len \<le> 2 ^ 64 - 256"
  shows "\<exists>mid fin.
     dev_write buffer (of_nat (256 * q)) st = Some (of_nat (256 * q), mid) \<and>
     dev_write buffer len st = Some (len, fin) \<and>
     message fin =
       fst (copy_from_user (message mid) buffer (sint (of_nat (256 * q) :: llong)) r) \<and>
     length (take r (message fin)) = r \<and>
     drop r (message fin) = drop r (message mid) \<and>
     last (klog fin) = Printk_message KERN_INFO (message fin) \<and>
     printed (last (klog fin)) =
       (if 0 \<in> set (take r (message fin))
        then Some (takeWhile (\<lambda>b. b \<noteq> 0) (take r (message fin)))
        else map_option ((@) (take r (message fin))) (c_string (drop r (message mid))))"
proof -
  let ?Q = "of_nat (256 * q) :: 64 word"
  let ?h = "\<lambda>n. printk KERN_INFO (device_name st @ '': Received '' @ fmt_zu n
                @ '' characters from the user. Message: '') st"
  have lenb: "unat len < 2 ^ 64" using unsigned_less [of len, where ?'a = nat] by simp
  have qb: "256 * q < 2 ^ 64" using len lenb by simp
  have uQ: "unat ?Q = 256 * q" using qb by (rule unat_chunk)
  have Qfin: "unat ?Q \<le> 2 ^ 64 - 256" using uQ len fin by simp
  from short_final_chunk_loop [OF len r fin, of buffer "?h len"] obtain mid1 fin where
    m1: "dev_write_loop buffer ?Q 0 (?h len) = Some mid1" and
    f: "dev_write_loop buffer len 0 (?h len) = Some fin" and
    c: "message fin = fst (copy_from_user (message mid1) buffer (sint ?Q) r)" and
    k: "klog fin = klog mid1 @ [Printk_message KERN_INFO (message fin)]"
    by blast
  have "message (?h len) = message (?h ?Q)" by (simp add: printk_def)
  from loop_message [OF Qfin this, of buffer 0] obtain s' mid where
    "dev_write_loop buffer ?Q 0 (?h len) = Some s'" and
    m2: "dev_write_loop buffer ?Q 0 (?h ?Q) = Some mid" and "message s' = message mid"
    by blast
  then have mm: "message mid1 = message mid" using m1 by simp
  have w1: "dev_write buffer ?Q st = Some (?Q, mid)"
    using m2 by (simp add: dev_write_def Let_def del: of_nat_mult)
  have w2: "dev_write buffer len st = Some (len, fin)"
    using f by (simp add: dev_write_def Let_def)
  have c': "message fin = fst (copy_from_user (message mid) buffer (sint ?Q) r)"
    using c mm by simp
  have d: "drop r (message fin) = drop r (message mid)"
    unfolding c' by (rule copy_from_user_frame)
  have l: "length (take r (message fin)) = r"
    unfolding c' by (rule copy_from_user_take)
  have la: "last (klog fin) = Printk_message KERN_INFO (message fin)"
    using k by simp
  have "c_string (message fin) = c_string (take r (message fin) @ drop r (message fin))"
    by simp
  also have "\<dots> = (if 0 \<in> set (take r (message fin))
        then Some (takeWhile (\<lambda>b. b \<noteq> 0) (take r (message fin)))
        else map_option ((@) (take r (message fin))) (c_string (drop r (message mid))))"
    by (simp only: c_string_append d)
  finally have p: "printed (last (klog fin)) =
       (if 0 \<in> set (take r (message fin))
        then Some (takeWhile (\<lambda>b. b \<noteq> 0) (take r (message fin)))
        else map_option ((@) (take r (message fin))) (c_string (drop r (message mid))))"
    by (simp add: la)
  show ?thesis using w1 w2 c' l d la p by blast
qed

text \<open>
  Two bytes written after 255 letters A: the array holds the two bytes, 253 letters A and
  a zero byte, and the two bytes are printed with the 253 stale letters after them.
\<close>

theorem short_final_chunk_after_A:
  "unat (2 :: size_t) = 256 * 0 + 2 \<and> (0 :: nat) < 2 \<and> (2 :: nat) < 256 \<and>
   unat (2 :: size_t) \<le> 2 ^ 64 - 256 \<and>
   dev_write (replicate 255 0x41) 255 init_state = Some (255, state_after_A) \<and>
   (\<exists>fin. dev_write [0x68, 0x69] 2 state_after_A = Some (2, fin) \<and>
      message fin = [0x68, 0x69] @ replicate 253 0x41 @ [0] \<and>
      last (klog fin) = Printk_message KERN_INFO (message fin) \<and>
      printed (last (klog fin)) = Some ([0x68, 0x69] @ replicate 253 0x41))"
proof -
  have h: "unat (2 :: size_t) = 256 * 0 + 2" "(0 :: nat) < 2" "(2 :: nat) < 256"
    "unat (2 :: size_t) \<le> 2 ^ 64 - 256" by simp_all
  from short_final_chunk_keeps_stale_tail [OF h, of "[0x68, 0x69]" state_after_A]
  obtain mid fin where
    m: "dev_write [0x68, 0x69] (of_nat (256 * 0)) state_after_A = Some (of_nat (256 * 0), mid)" and
    f: "dev_write [0x68, 0x69] 2 state_after_A = Some (2, fin)" and
    c: "message fin =
          fst (copy_from_user (message mid) [0x68, 0x69] (sint (of_nat (256 * 0) :: llong)) 2)" and
    la: "last (klog fin) = Printk_message KERN_INFO (message fin)" and
    p: "printed (last (klog fin)) =
       (if 0 \<in> set (take 2 (message fin))
        then Some (takeWhile (\<lambda>b. b \<noteq> 0) (take 2 (message fin)))
        else map_option ((@) (take 2 (message fin))) (c_string (drop 2 (message mid))))"
    by blast
  have mid: "message mid = replicate 255 0x41 @ [0]"
    using m by (auto simp: dev_write_def dev_write_loop.simps printk_def state_after_A_def Let_def)
  have mf: "message fin = [0x68, 0x69] @ replicate 253 0x41 @ [0]"
    using c by (simp add: mid copy_from_user_def Let_def)
  have "drop 2 (message mid) = replicate 253 0x41 @ [0]" by (simp add: mid)
  then have pf: "printed (last (klog fin)) = Some ([0x68, 0x69] @ replicate 253 0x41)"
    using p by (simp add: mf c_string_def takeWhile_nonzero_append)
  show ?thesis using h first_write_A f mf la pf by blast
qed

text \<open>
  C6, as the claim has it, fails in its last part: what is printed for a short chunk need
  not be the whole array. When the three bytes \<open>hi\<close> and a line feed are written to a freshly
  loaded module, the array holds them followed by 253 zero bytes, and three bytes are
  printed.
\<close>

theorem short_chunk_prints_less_than_the_array:
  "map_option (printed \<circ> last \<circ> klog \<circ> snd) (dev_write [0x68, 0x69, 0x0A] 3 init_state)
     = Some (Some [0x68, 0x69, 0x0A]) \<and>
   map_option (message \<circ> snd) (dev_write [0x68, 0x69, 0x0A] 3 init_state)
     = Some ([0x68, 0x69, 0x0A] @ replicate 253 0)"
  by (simp add: dev_write_def dev_write_loop.simps dev_write_body_def printk_def
      printk_message_def copy_from_user_def sizeof_message_def Let_def init_state_def
      c_string_def)

text \<open>
  C10. A write of length 0 runs the loop zero times: the loop returns the state it was
  given, so no byte is copied, no chunk is logged and the array \<open>message\<close> is as it was.
  The call returns 0, and the only line it has logged is the one that announces the number
  of characters received.
\<close>

theorem dev_write_zero_length:
  "dev_write_loop buffer 0 0 st = Some st \<and>
   dev_write buffer 0 st =
     Some (0, st\<lparr>klog := klog st @
                 [Printk KERN_INFO
                    (device_name st @ '': Received 0 characters from the user. Message: '')]\<rparr>)"
  by (simp add: dev_write_def dev_write_loop.simps printk_def fmt_zu_def dec_nat.simps
      digit_char_def)

end
